theory Spec2Isabelle
  imports Main "HOL-Library.Word"
begin

section \<open>JavaScript strings\<close>

text \<open>
  A JavaScript string is a sequence of UTF-16 code units; \<open>length\<close>, \<open>trim\<close> and
  \<open>parseInt\<close> all work on code units. \<open>js\<close> embeds an ASCII literal, so that
  \<open>js ''SP''\<close> is the string \<^verbatim>\<open>"SP"\<close>; a code unit outside ASCII is written as its
  number (\<open>0xE9\<close> is e with acute accent).
\<close>

type_synonym codeunit = "16 word"
type_synonym jsstring = "codeunit list"

definition js :: "string \<Rightarrow> jsstring" where
  "js s = map of_char s"

text \<open>
  ECMAScript's WhiteSpace and LineTerminator productions, the set that
  \<open>String.prototype.trim\<close> and the prefix skipping of \<open>parseInt\<close> use: TAB, LF, VT, FF,
  CR, SP, NBSP, the other space separators of Unicode, LS, PS and ZWNBSP.
\<close>

definition isWhiteSpace :: "codeunit \<Rightarrow> bool" where
  "isWhiteSpace c \<longleftrightarrow>
     c = 0x09 \<or> c = 0x0A \<or> c = 0x0B \<or> c = 0x0C \<or> c = 0x0D \<or> c = 0x20 \<or> c = 0xA0 \<or>
     c = 0x1680 \<or> (0x2000 \<le> c \<and> c \<le> 0x200A) \<or> c = 0x2028 \<or> c = 0x2029 \<or>
     c = 0x202F \<or> c = 0x205F \<or> c = 0x3000 \<or> c = 0xFEFF"

definition trimStart :: "jsstring \<Rightarrow> jsstring" where
  "trimStart s = dropWhile isWhiteSpace s"

definition trim :: "jsstring \<Rightarrow> jsstring" where
  "trim s = rev (trimStart (rev (trimStart s)))"

text \<open>
  \<open>String.prototype.toUpperCase\<close> on the ASCII range: the letters a to z move to A to Z.
  Code units from \<open>0x80\<close> on are governed by the Unicode case tables, which are not part
  of this development; the function leaves them as they are, and every statement that
  depends on it is restricted to ASCII strings (\<open>isASCII\<close>).
\<close>

definition isLowerASCII :: "codeunit \<Rightarrow> bool" where
  "isLowerASCII c \<longleftrightarrow> 0x61 \<le> c \<and> c \<le> 0x7A"

definition isUpperASCII :: "codeunit \<Rightarrow> bool" where
  "isUpperASCII c \<longleftrightarrow> 0x41 \<le> c \<and> c \<le> 0x5A"

definition isASCII :: "jsstring \<Rightarrow> bool" where
  "isASCII s \<longleftrightarrow> list_all (\<lambda>c. c < 0x80) s"

definition toUpperCase :: "jsstring \<Rightarrow> jsstring" where
  "toUpperCase s = map (\<lambda>c. if isLowerASCII c then c - 0x20 else c) s"

text \<open>\<open>String.prototype.includes\<close>: the pattern occurs as a contiguous run.\<close>

fun includes_str :: "jsstring \<Rightarrow> jsstring \<Rightarrow> bool" where
  "includes_str [] pat = (pat = [])"
| "includes_str (c # cs) pat = (take (length pat) (c # cs) = pat \<or> includes_str cs pat)"

text \<open>\<open>Number.prototype.toString\<close> on integers: decimal digits, with a minus sign.\<close>

fun natToString :: "nat \<Rightarrow> jsstring" where
  "natToString n =
     (if n < 10 then [of_nat (0x30 + n)]
      else natToString (n div 10) @ [of_nat (0x30 + n mod 10)])"

declare natToString.simps [simp del]

definition numberToString :: "int \<Rightarrow> jsstring" where
  "numberToString i = (if i < 0 then 0x2D # natToString (nat (- i)) else natToString (nat i))"

subsection \<open>parseInt\<close>

text \<open>
  \<open>parseInt(string)\<close> with no radix, following the steps of ECMAScript: skip leading
  white space, read an optional sign, switch to radix 16 on a \<^verbatim>\<open>0x\<close> or \<^verbatim>\<open>0X\<close> prefix,
  take the longest run of digits of the radix, and ignore whatever follows. The result
  is \<open>None\<close> for NaN (no digit was found). The value is a mathematical integer here; the
  source's double is only compared with 0 and 150, and rounding a long digit string to
  a double does not move it across either bound.
\<close>

definition digitValue :: "codeunit \<Rightarrow> nat option" where
  "digitValue c =
     (if 0x30 \<le> c \<and> c \<le> 0x39 then Some (unat c - 0x30)
      else if isLowerASCII c then Some (unat c - 0x61 + 10)
      else if isUpperASCII c then Some (unat c - 0x41 + 10)
      else None)"

definition isRadixDigit :: "nat \<Rightarrow> codeunit \<Rightarrow> bool" where
  "isRadixDigit R c = (case digitValue c of None \<Rightarrow> False | Some d \<Rightarrow> d < R)"

definition digitsValue :: "nat \<Rightarrow> jsstring \<Rightarrow> nat" where
  "digitsValue R Z =
     foldl (\<lambda>acc c. acc * R + (case digitValue c of None \<Rightarrow> 0 | Some d \<Rightarrow> d)) 0 Z"

definition parseInt :: "jsstring \<Rightarrow> int option" where
  "parseInt inputString =
     (let S = trimStart inputString;
          sign = (if S \<noteq> [] \<and> hd S = 0x2D then - 1 else 1 :: int);
          S1 = (if S \<noteq> [] \<and> (hd S = 0x2B \<or> hd S = 0x2D) then tl S else S);
          hex = (2 \<le> length S1 \<and> (take 2 S1 = [0x30, 0x78] \<or> take 2 S1 = [0x30, 0x58]));
          R = (if hex then 16 else 10);
          S2 = (if hex then drop 2 S1 else S1);
          Z = takeWhile (isRadixDigit R) S2
      in if Z = [] then None else Some (sign * int (digitsValue R Z)))"

section \<open>The API service (BackEnd/index.js)\<close>

text \<open>
  JSON values as the handlers see them, with \<open>undefined\<close> for an absent property.
  Numbers are integers here; no handler computes with them.
\<close>

datatype jsvalue =
    JUndefined
  | JNull
  | JBool bool
  | JNum int
  | JStr jsstring
  | JArr "jsvalue list"
  | JObj "(jsstring \<times> jsvalue) list"

text \<open>Property lookup on a parsed JSON object: the last occurrence of a key wins.\<close>

definition getProp :: "(jsstring \<times> jsvalue) list \<Rightarrow> jsstring \<Rightarrow> jsvalue" where
  "getProp fields k = (case map_of (rev fields) k of None \<Rightarrow> JUndefined | Some v \<Rightarrow> v)"

text \<open>
  \<open>const { Nome, Idade, UF } = req.body\<close>: a \<open>TypeError\<close> (\<open>None\<close>) when the body is
  \<open>undefined\<close> or \<open>null\<close>, the three properties otherwise.
\<close>

fun destructure :: "jsvalue \<Rightarrow> (jsvalue \<times> jsvalue \<times> jsvalue) option" where
  "destructure JUndefined = None"
| "destructure JNull = None"
| "destructure (JObj fields) =
     Some (getProp fields (js ''Nome''), getProp fields (js ''Idade''), getProp fields (js ''UF''))"
| "destructure v = Some (JUndefined, JUndefined, JUndefined)"

record req =
  params_id :: jsstring
  req_body :: jsvalue

text \<open>What \<open>res.status(n).json(v)\<close> sends; \<open>res.json(v)\<close> alone sends status 200.\<close>

record res =
  statusCode :: nat
  jsonBody :: jsvalue

text \<open>
  The five storage functions come from \<^verbatim>\<open>./conf/autenticacao\<close>, which is not among the
  sources. Each handler takes the function it awaits as an argument: applied to the
  database \<open>'db\<close> it returns the new database and either the value of the promise
  (\<open>Inr\<close>) or the error it rejects with (\<open>Inl\<close>). For \<open>deleteById\<close> the value is read
  as a condition, so it is the truthiness of what the promise yields.
\<close>

definition app_get_root ::
  "('db \<Rightarrow> ('e + jsvalue) \<times> 'db) \<Rightarrow> req \<Rightarrow> 'db \<Rightarrow> res \<times> 'db" where
  "app_get_root selectFull rq db =
     (case selectFull db of
        (Inr data, db') \<Rightarrow> (\<lparr>statusCode = 200, jsonBody = data\<rparr>, db')
      | (Inl err, db') \<Rightarrow>
          (\<lparr>statusCode = 500,
            jsonBody = JObj [(js ''error'', JStr (js ''Erro ao buscar clientes''))]\<rparr>, db'))"

definition app_get_clientes_id ::
  "(jsstring \<Rightarrow> 'db \<Rightarrow> ('e + jsvalue) \<times> 'db) \<Rightarrow> req \<Rightarrow> 'db \<Rightarrow> res \<times> 'db" where
  "app_get_clientes_id selectById rq db =
     (case selectById (params_id rq) db of
        (Inr data, db') \<Rightarrow> (\<lparr>statusCode = 200, jsonBody = data\<rparr>, db')
      | (Inl err, db') \<Rightarrow>
          (\<lparr>statusCode = 500,
            jsonBody = JObj [(js ''error'', JStr (js ''Erro ao buscar cliente''))]\<rparr>, db'))"

definition app_post_clientes ::
  "(jsvalue \<Rightarrow> jsvalue \<Rightarrow> jsvalue \<Rightarrow> 'db \<Rightarrow> ('e + 'r) \<times> 'db) \<Rightarrow> req \<Rightarrow> 'db \<Rightarrow> res \<times> 'db" where
  "app_post_clientes insertCliente rq db =
     (case destructure (req_body rq) of
        None \<Rightarrow>
          (\<lparr>statusCode = 500,
            jsonBody = JObj [(js ''error'', JStr (js ''Erro ao criar cliente''))]\<rparr>, db)
      | Some (Nome, Idade, UF) \<Rightarrow>
          (case insertCliente Nome Idade UF db of
             (Inr done, db') \<Rightarrow>
               (\<lparr>statusCode = 201,
                 jsonBody = JObj [(js ''message'', JStr (js ''Cliente criado com sucesso''))]\<rparr>,
                db')
           | (Inl err, db') \<Rightarrow>
               (\<lparr>statusCode = 500,
                 jsonBody = JObj [(js ''error'', JStr (js ''Erro ao criar cliente''))]\<rparr>, db')))"

definition app_put_clientes_id ::
  "(jsvalue \<Rightarrow> jsvalue \<Rightarrow> jsvalue \<Rightarrow> jsstring \<Rightarrow> 'db \<Rightarrow> ('e + 'r) \<times> 'db)
     \<Rightarrow> req \<Rightarrow> 'db \<Rightarrow> res \<times> 'db" where
  "app_put_clientes_id updateCliente rq db =
     (case destructure (req_body rq) of
        None \<Rightarrow>
          (\<lparr>statusCode = 500,
            jsonBody = JObj [(js ''error'', JStr (js ''Erro ao atualizar cliente''))]\<rparr>, db)
      | Some (Nome, Idade, UF) \<Rightarrow>
          (case updateCliente Nome Idade UF (params_id rq) db of
             (Inr done, db') \<Rightarrow>
               (\<lparr>statusCode = 200,
                 jsonBody = JObj [(js ''message'', JStr (js ''Cliente atualizado com sucesso''))]\<rparr>,
                db')
           | (Inl err, db') \<Rightarrow>
               (\<lparr>statusCode = 500,
                 jsonBody = JObj [(js ''error'', JStr (js ''Erro ao atualizar cliente''))]\<rparr>,
                db')))"

definition app_delete_clientes_id ::
  "(jsstring \<Rightarrow> 'db \<Rightarrow> ('e + bool) \<times> 'db) \<Rightarrow> req \<Rightarrow> 'db \<Rightarrow> res \<times> 'db" where
  "app_delete_clientes_id deleteById rq db =
     (case deleteById (params_id rq) db of
        (Inr ok, db') \<Rightarrow>
          if ok then
            (\<lparr>statusCode = 200,
              jsonBody = JObj [(js ''message'', JStr (js ''Cliente deletado com sucesso''))]\<rparr>,
             db')
          else
            (\<lparr>statusCode = 404,
              jsonBody = JObj [(js ''error'',
                                JStr (js ''Cliente n'' @ [0xE3] @ js ''o encontrado''))]\<rparr>,
             db')
      | (Inl err, db') \<Rightarrow>
          (\<lparr>statusCode = 500,
            jsonBody = JObj [(js ''error'', JStr (js ''Erro ao deletar cliente''))]\<rparr>, db'))"

subsection \<open>A table of clients\<close>

text \<open>
  Modelled from the spec: the storage layer (\<^verbatim>\<open>conf/autenticacao.js\<close>) is missing from the
  sources. The spec describes a table of records whose \<open>id\<close> the storage layer
  generates on creation; an update replaces the three fields of the record with the
  given \<open>id\<close>, and a delete removes it and tells whether a record matched. The
  \<open>id\<close> of a route arrives as text and matches a row by its decimal form. These
  functions never reject; they serve as concrete storage where the handlers, which do
  not depend on them, are run on an example.
\<close>

record table =
  nextId :: nat
  rows :: "(nat \<times> jsvalue \<times> jsvalue \<times> jsvalue) list"

definition matches :: "jsstring \<Rightarrow> nat \<times> jsvalue \<times> jsvalue \<times> jsvalue \<Rightarrow> bool" where
  "matches ident row \<longleftrightarrow> natToString (fst row) = ident"

definition table_insertCliente ::
  "jsvalue \<Rightarrow> jsvalue \<Rightarrow> jsvalue \<Rightarrow> table \<Rightarrow> (unit + nat) \<times> table" where
  "table_insertCliente n i u t =
     (Inr (nextId t), t\<lparr>nextId := Suc (nextId t), rows := rows t @ [(nextId t, n, i, u)]\<rparr>)"

definition table_updateCliente ::
  "jsvalue \<Rightarrow> jsvalue \<Rightarrow> jsvalue \<Rightarrow> jsstring \<Rightarrow> table \<Rightarrow> (unit + nat) \<times> table" where
  "table_updateCliente n i u ident t =
     (Inr (length (filter (matches ident) (rows t))),
      t\<lparr>rows := map (\<lambda>row. if matches ident row then (fst row, n, i, u) else row) (rows t)\<rparr>)"

definition table_deleteById :: "jsstring \<Rightarrow> table \<Rightarrow> (unit + bool) \<times> table" where
  "table_deleteById ident t =
     (Inr (list_ex (matches ident) (rows t)),
      t\<lparr>rows := filter (\<lambda>row. \<not> matches ident row) (rows t)\<rparr>)"

section \<open>The client application (FrontEnd/app/index.tsx)\<close>

record Cliente =
  id' :: int
  Nome :: jsstring
  Idade :: int
  UF :: jsstring

record FormData =
  Nome :: jsstring
  Idade :: jsstring
  UF :: jsstring


text \<open>The object that \<open>JSON.stringify\<close> receives in \<open>createCliente\<close> and \<open>updateCliente\<close>;
  \<open>Idade\<close> is \<open>None\<close> when \<open>parseInt\<close> gave NaN.\<close>

record ClienteBody =
  Nome :: jsstring
  Idade :: "int option"
  UF :: jsstring

record AppState =
  clientes :: "Cliente list"
  loading :: bool
  modalVisible :: bool
  deleteModalVisible :: bool
  editingCliente :: "Cliente option"
  deletingCliente :: "Cliente option"
  formData :: FormData

subsection \<open>What the handlers do to the outside\<close>

text \<open>
  A handler's visible effects are the dialogs it opens (\<open>Alert.alert\<close> with title and
  message) and the requests it sends, in program order. Console output is not modelled.
\<close>

datatype http_method = GET | POST | PUT | DELETE

text \<open>
  The \<open>signal\<close> option of a request: \<open>AbortSignal.timeout(ms)\<close>, or the signal of an
  \<open>AbortController\<close> that a \<open>setTimeout\<close> callback aborts after \<open>ms\<close> milliseconds.
\<close>

datatype abort_signal = AbortSignal_timeout nat | AbortController_after nat

record request =
  req_method :: http_method
  url :: jsstring
  payload :: "ClienteBody option"
  signal :: abort_signal

datatype event = Alert jsstring jsstring | Fetch request

text \<open>
  A value that a rejected promise or a \<open>throw\<close> carries: an \<open>Error\<close> instance with
  its \<open>name\<close> and \<open>message\<close>; a value that is no \<open>Error\<close> instance, with its
  \<open>name\<close> property when that is a string; or \<open>null\<close> or \<open>undefined\<close>, on which
  reading any property throws a \<open>TypeError\<close>.
\<close>

datatype thrown = ErrorObj jsstring jsstring | NotAnError "jsstring option" | Nullish

text \<open>
  A response as the client reads it: the status and what the body turns out to be.
  Array elements are taken to have the shape of the \<open>Cliente\<close> interface, as the
  source's type annotation does. \<open>NotJson\<close> is a body that is text but not JSON, with
  the message of the platform's \<open>SyntaxError\<close>; \<open>Unreadable\<close> is a body whose reading
  rejects.
\<close>

datatype resp_body = JsonArray "Cliente list" | JsonOther | NotJson jsstring | Unreadable thrown

record response =
  status :: nat
  body :: resp_body

definition ok :: "response \<Rightarrow> bool" where
  "ok r \<longleftrightarrow> 200 \<le> status r \<and> status r \<le> 299"

text \<open>\<open>response.json()\<close>: the parsed array (\<open>Some\<close>), another JSON value (\<open>None\<close>), or a
  rejection.\<close>

fun json :: "resp_body \<Rightarrow> thrown + Cliente list option" where
  "json (JsonArray cs) = Inr (Some cs)"
| "json JsonOther = Inr None"
| "json (NotJson message) = Inl (ErrorObj (js ''SyntaxError'') message)"
| "json (Unreadable e) = Inl e"

text \<open>\<open>response.text()\<close>; the text itself only goes to the console.\<close>

fun text_of :: "resp_body \<Rightarrow> thrown + unit" where
  "text_of (Unreadable e) = Inl e"
| "text_of b = Inr ()"

text \<open>
  What the network does with a request: answer after some milliseconds, fail after
  some milliseconds (connection refused, DNS failure), or never answer.
\<close>

datatype net_behaviour = Responds nat response | Fails nat thrown | NoAnswer

fun delay :: "abort_signal \<Rightarrow> nat" where
  "delay (AbortSignal_timeout ms) = ms"
| "delay (AbortController_after ms) = ms"

text \<open>
  The rejection of an aborted fetch, as the Fetch standard has it: the signal's abort
  reason, a DOMException named \<^verbatim>\<open>TimeoutError\<close> for \<open>AbortSignal.timeout\<close> and
  \<^verbatim>\<open>AbortError\<close> for \<open>controller.abort()\<close>. The message text is the platform's.
\<close>

fun abortReason :: "abort_signal \<Rightarrow> thrown" where
  "abortReason (AbortSignal_timeout ms) = ErrorObj (js ''TimeoutError'') (js ''signal timed out'')"
| "abortReason (AbortController_after ms) =
     ErrorObj (js ''AbortError'') (js ''signal is aborted without reason'')"

text \<open>\<open>await fetch(url, options)\<close>: whichever comes first, the network or the abort.\<close>

definition fetch :: "(request \<Rightarrow> net_behaviour) \<Rightarrow> request \<Rightarrow> thrown + response" where
  "fetch net req =
     (case net req of
        Responds d r \<Rightarrow> if d < delay (signal req) then Inr r else Inl (abortReason (signal req))
      | Fails d e \<Rightarrow> if d < delay (signal req) then Inl e else Inl (abortReason (signal req))
      | NoAnswer \<Rightarrow> Inl (abortReason (signal req)))"

definition API_BASE_URL :: jsstring where
  "API_BASE_URL = js ''http://localhost:3000''"

subsection \<open>validateForm\<close>

text \<open>
  The checks in the source's order; each failing check opens its dialog and returns
  \<open>false\<close>. An empty string is the only falsy string, so \<open>!s.trim()\<close> is
  \<open>trim s = []\<close>. The length of the state code is taken from the field as it
  stands (\<open>formData.UF.length\<close>), not from its trimmed value.
\<close>

definition validateForm :: "FormData \<Rightarrow> bool \<times> event list" where
  "validateForm f =
     (if trim (FormData.Nome f) = [] then
        (False, [Alert (js ''Erro'') (js ''Nome '' @ [0xE9] @ js '' obrigat'' @ [0xF3] @ js ''rio'')])
      else if trim (FormData.Idade f) = [] then
        (False, [Alert (js ''Erro'') (js ''Idade '' @ [0xE9] @ js '' obrigat'' @ [0xF3] @ js ''ria'')])
      else
        (case parseInt (FormData.Idade f) of
           None \<Rightarrow>
             (False, [Alert (js ''Erro'') (js ''Digite uma idade v'' @ [0xE1] @ js ''lida (0-150)'')])
         | Some idade \<Rightarrow>
             if idade < 0 \<or> idade > 150 then
               (False, [Alert (js ''Erro'') (js ''Digite uma idade v'' @ [0xE1] @ js ''lida (0-150)'')])
             else if trim (FormData.UF f) = [] then
               (False, [Alert (js ''Erro'') (js ''UF '' @ [0xE9] @ js '' obrigat'' @ [0xF3] @ js ''ria'')])
             else if length (FormData.UF f) \<noteq> 2 then
               (False, [Alert (js ''Erro'') (js ''UF deve ter exatamente 2 caracteres'')])
             else (True, [])))"

subsection \<open>Closing the modals\<close>

definition resetForm :: "AppState \<Rightarrow> AppState" where
  "resetForm st =
     st\<lparr>formData := \<lparr>FormData.Nome = [], Idade = [], UF = []\<rparr>,
        editingCliente := None,
        modalVisible := False\<rparr>"

definition closeDeleteModal :: "AppState \<Rightarrow> AppState" where
  "closeDeleteModal st = st\<lparr>deletingCliente := None, deleteModalVisible := False\<rparr>"

definition confirmDeleteCliente :: "Cliente \<Rightarrow> AppState \<Rightarrow> AppState" where
  "confirmDeleteCliente cliente st =
     st\<lparr>deletingCliente := Some cliente, deleteModalVisible := True\<rparr>"

subsection \<open>fetchClientes\<close>

text \<open>
  The body of the \<open>try\<close> block: the promise either yields the value given to
  \<open>setClientes\<close> or rejects. A status outside 200 to 299 throws an \<open>Error\<close> whose
  message carries the status.
\<close>

definition fetchClientes_request :: request where
  "fetchClientes_request =
     \<lparr>req_method = GET, url = API_BASE_URL @ js ''/'', payload = None,
      signal = AbortSignal_timeout 10000\<rparr>"

definition fetchClientes_try :: "(request \<Rightarrow> net_behaviour) \<Rightarrow> thrown + Cliente list" where
  "fetchClientes_try net =
     (case fetch net fetchClientes_request of
        Inl error \<Rightarrow> Inl error
      | Inr response \<Rightarrow>
          if \<not> ok response then
            Inl (ErrorObj (js ''Error'')
                   (js ''HTTP error! status: '' @ natToString (status response)))
          else
            (case json (body response) of
               Inl error \<Rightarrow> Inl error
             | Inr (Some data) \<Rightarrow> Inr data
             | Inr None \<Rightarrow> Inr []))"

text \<open>The \<open>catch\<close> block: which dialog an error opens.\<close>

fun fetchClientes_catch :: "thrown \<Rightarrow> event list" where
  "fetchClientes_catch (ErrorObj name message) =
     (if name = js ''TimeoutError'' then
        [Alert (js ''Erro'')
           (js ''Timeout: Verifique se a API est'' @ [0xE1] @ js '' rodando e o IP est''
            @ [0xE1] @ js '' correto.'')]
      else if includes_str message (js ''Network request failed'') then
        [Alert (js ''Erro de Conex'' @ [0xE3] @ js ''o'')
           (js ''N'' @ [0xE3] @ js ''o foi poss'' @ [0xED] @ js ''vel conectar com a API.''
            @ [0x0A, 0x0A] @ js ''Verifique:'' @ [0x0A, 0x2022]
            @ js '' Se a API est'' @ [0xE1] @ js '' rodando na porta 3000'' @ [0x0A, 0x2022]
            @ js '' Se o IP '' @ API_BASE_URL @ js '' est'' @ [0xE1] @ js '' correto''
            @ [0x0A, 0x2022] @ js '' Se voc'' @ [0xEA] @ js '' est'' @ [0xE1]
            @ js '' na mesma rede'')]
      else
        [Alert (js ''Erro'') (js ''Falha na conex'' @ [0xE3] @ js ''o: '' @ message)])"
| "fetchClientes_catch (NotAnError name) = []"
| "fetchClientes_catch Nullish = []"

text \<open>The whole function; \<open>finally\<close> resets \<open>loading\<close> on every path.\<close>

definition fetchClientes :: "(request \<Rightarrow> net_behaviour) \<Rightarrow> AppState \<Rightarrow> AppState \<times> event list" where
  "fetchClientes net st =
     (case fetchClientes_try net of
        Inr data \<Rightarrow> (st\<lparr>clientes := data, loading := False\<rparr>, [Fetch fetchClientes_request])
      | Inl error \<Rightarrow>
          (st\<lparr>loading := False\<rparr>, Fetch fetchClientes_request # fetchClientes_catch error))"

subsection \<open>createCliente and updateCliente\<close>

definition requestBody :: "FormData \<Rightarrow> ClienteBody" where
  "requestBody f =
     \<lparr>ClienteBody.Nome = trim (FormData.Nome f),
      Idade = parseInt (FormData.Idade f),
      UF = toUpperCase (trim (FormData.UF f))\<rparr>"

definition connectionAlert :: event where
  "connectionAlert =
     Alert (js ''Erro'')
       (js ''Erro de conex'' @ [0xE3] @ js ''o. Verifique se a API est'' @ [0xE1]
        @ js '' funcionando.'')"

definition createCliente_request :: "FormData \<Rightarrow> request" where
  "createCliente_request f =
     \<lparr>req_method = POST, url = API_BASE_URL @ js ''/clientes'', payload = Some (requestBody f),
      signal = AbortSignal_timeout 10000\<rparr>"

definition createCliente :: "(request \<Rightarrow> net_behaviour) \<Rightarrow> AppState \<Rightarrow> AppState \<times> event list" where
  "createCliente net st =
     (case validateForm (formData st) of
        (False, alerts) \<Rightarrow> (st, alerts)
      | (True, alerts) \<Rightarrow>
          (let req = createCliente_request (formData st) in
           case fetch net req of
             Inl error \<Rightarrow> (st, alerts @ [Fetch req, connectionAlert])
           | Inr response \<Rightarrow>
               if ok response then
                 (let (st', evs) = fetchClientes net (resetForm st)
                  in (st', alerts @ [Fetch req,
                        Alert (js ''Sucesso'') (js ''Cliente criado com sucesso!'')] @ evs))
               else
                 (case text_of (body response) of
                    Inl error \<Rightarrow> (st, alerts @ [Fetch req, connectionAlert])
                  | Inr errorData \<Rightarrow>
                      (st, alerts @ [Fetch req,
                         Alert (js ''Erro'')
                           (js ''N'' @ [0xE3] @ js ''o foi poss'' @ [0xED]
                            @ js ''vel criar o cliente'')]))))"

definition updateCliente_request :: "Cliente \<Rightarrow> FormData \<Rightarrow> request" where
  "updateCliente_request c f =
     \<lparr>req_method = PUT, url = API_BASE_URL @ js ''/clientes/'' @ numberToString (id' c),
      payload = Some (requestBody f), signal = AbortSignal_timeout 10000\<rparr>"

definition updateCliente :: "(request \<Rightarrow> net_behaviour) \<Rightarrow> AppState \<Rightarrow> AppState \<times> event list" where
  "updateCliente net st =
     (case editingCliente st of
        None \<Rightarrow> (st, [])
      | Some editing \<Rightarrow>
          (case validateForm (formData st) of
             (False, alerts) \<Rightarrow> (st, alerts)
           | (True, alerts) \<Rightarrow>
               (let req = updateCliente_request editing (formData st) in
                case fetch net req of
                  Inl error \<Rightarrow> (st, alerts @ [Fetch req, connectionAlert])
                | Inr response \<Rightarrow>
                    if ok response then
                      (let (st', evs) = fetchClientes net (resetForm st)
                       in (st', alerts @ [Fetch req,
                             Alert (js ''Sucesso'') (js ''Cliente atualizado com sucesso!'')] @ evs))
                    else
                      (case text_of (body response) of
                         Inl error \<Rightarrow> (st, alerts @ [Fetch req, connectionAlert])
                       | Inr errorData \<Rightarrow>
                           (st, alerts @ [Fetch req,
                              Alert (js ''Erro'')
                                (js ''N'' @ [0xE3] @ js ''o foi poss'' @ [0xED]
                                 @ js ''vel atualizar o cliente'')])))))"

subsection \<open>deleteCliente\<close>

definition deleteCliente_request :: "Cliente \<Rightarrow> request" where
  "deleteCliente_request c =
     \<lparr>req_method = DELETE, url = API_BASE_URL @ js ''/clientes/'' @ numberToString (id' c),
      payload = None, signal = AbortController_after 8000\<rparr>"

text \<open>
  The \<open>catch\<close> block of \<open>deleteCliente\<close>, after it has closed the modal: the dialog is
  chosen by \<open>error.name\<close>. When the rejection is \<open>null\<close> or \<open>undefined\<close>, reading
  \<open>error.name\<close> throws inside the block: no dialog opens, and the promise of
  \<open>deleteCliente\<close> rejects with that \<open>TypeError\<close>, which nothing awaits.
\<close>

fun deleteCliente_catch :: "thrown \<Rightarrow> event list" where
  "deleteCliente_catch (ErrorObj name message) =
     (if name = js ''AbortError'' then
        [Alert (js ''Timeout'')
           (js ''A opera'' @ [0xE7, 0xE3] @ js ''o demorou muito para responder.'')]
      else [connectionAlert])"
| "deleteCliente_catch (NotAnError name) =
     (if name = Some (js ''AbortError'') then
        [Alert (js ''Timeout'')
           (js ''A opera'' @ [0xE7, 0xE3] @ js ''o demorou muito para responder.'')]
      else [connectionAlert])"
| "deleteCliente_catch Nullish = []"

definition deleteCliente :: "(request \<Rightarrow> net_behaviour) \<Rightarrow> AppState \<Rightarrow> AppState \<times> event list" where
  "deleteCliente net st =
     (case deletingCliente st of
        None \<Rightarrow> (st, [])
      | Some deleting \<Rightarrow>
          (let req = deleteCliente_request deleting in
           case fetch net req of
             Inl error \<Rightarrow> (closeDeleteModal st, Fetch req # deleteCliente_catch error)
           | Inr response \<Rightarrow>
               if ok response then
                 (let (st', evs) = fetchClientes net (closeDeleteModal st)
                  in (st', [Fetch req,
                        Alert (js ''Sucesso'') (js ''Cliente deletado com sucesso!'')] @ evs))
               else
                 (case text_of (body response) of
                    Inl error \<Rightarrow> (closeDeleteModal st, Fetch req # deleteCliente_catch error)
                  | Inr errorData \<Rightarrow>
                      (closeDeleteModal st,
                       [Fetch req,
                        Alert (js ''Erro'')
                          (js ''N'' @ [0xE3] @ js ''o foi poss'' @ [0xED]
                           @ js ''vel deletar o cliente'')]))))"

subsection \<open>Reading a run\<close>

text \<open>The requests among the effects of a handler, in the order they were sent.\<close>

fun sent :: "event list \<Rightarrow> request list" where
  "sent [] = []"
| "sent (Fetch r # es) = r # sent es"
| "sent (Alert title message # es) = sent es"

text \<open>
  The spec's wording of the age rule speaks of numeric text. Read on its own, a text is
  numeric when, white space around it aside, it is an optional sign followed by
  decimal digits and nothing else. This predicate follows the spec, not the source.
\<close>

definition spec_numeric_text :: "jsstring \<Rightarrow> bool" where
  "spec_numeric_text s \<longleftrightarrow>
     (let t = trim s;
          d = (if t \<noteq> [] \<and> (hd t = 0x2B \<or> hd t = 0x2D) then tl t else t)
      in d \<noteq> [] \<and> list_all (\<lambda>c. 0x30 \<le> c \<and> c \<le> 0x39) d)"

text \<open>
  A network that stays silent until \<open>ms\<close> milliseconds have passed: it answers or
  fails no earlier than that, or never.
\<close>

definition silent_until :: "nat \<Rightarrow> net_behaviour \<Rightarrow> bool" where
  "silent_until ms b = (case b of Responds d r \<Rightarrow> ms \<le> d | Fails d e \<Rightarrow> ms \<le> d | NoAnswer \<Rightarrow> True)"

subsection \<open>Example data\<close>

text \<open>
  One stored client, the screen with the form open on that client, the screen showing
  the list, and three networks: a server that answers every request after a given
  latency, a server that answers 500, and a server that cannot be reached.
\<close>

definition ana :: Cliente where
  "ana = \<lparr>id' = 1, Nome = js ''Ana Silva'', Idade = 30, UF = js ''SP''\<rparr>"

definition editing_ana :: "FormData \<Rightarrow> AppState" where
  "editing_ana f =
     \<lparr>clientes = [ana], loading = False, modalVisible = True, deleteModalVisible = False,
      editingCliente = Some ana, deletingCliente = None, formData = f\<rparr>"

definition listing :: AppState where
  "listing =
     \<lparr>clientes = [ana], loading = False, modalVisible = False, deleteModalVisible = False,
      editingCliente = None, deletingCliente = None,
      formData = \<lparr>FormData.Nome = [], Idade = [], UF = []\<rparr>\<rparr>"

definition server_up :: "nat \<Rightarrow> request \<Rightarrow> net_behaviour" where
  "server_up latency r =
     Responds latency
       (case req_method r of
          GET \<Rightarrow> \<lparr>status = 200, body = JsonArray [ana]\<rparr>
        | POST \<Rightarrow> \<lparr>status = 201, body = JsonOther\<rparr>
        | PUT \<Rightarrow> \<lparr>status = 200, body = JsonOther\<rparr>
        | DELETE \<Rightarrow> \<lparr>status = 200, body = JsonOther\<rparr>)"

definition server_failing :: "request \<Rightarrow> net_behaviour" where
  "server_failing r = Responds 20 \<lparr>status = 500, body = JsonOther\<rparr>"

definition server_down :: "request \<Rightarrow> net_behaviour" where
  "server_down r = Fails 5 (ErrorObj (js ''TypeError'') (js ''Network request failed''))"

section \<open>Properties of the API service\<close>

text \<open>
  C3. The delete handler answers by what the storage call reports: 200 with the success
  message when a record was removed, 404 with the not-found error when none matched,
  500 with the fixed error payload when the call rejects. Hence, when the storage
  removes the record at the first call and finds nothing at the second, deleting the
  same id twice gives 200 and then 404.
\<close>

theorem delete_status_follows_storage:
  "(deleteById (params_id rq) db = (Inr True, db1) \<longrightarrow>
      app_delete_clientes_id deleteById rq db =
        (\<lparr>statusCode = 200,
          jsonBody = JObj [(js ''message'', JStr (js ''Cliente deletado com sucesso''))]\<rparr>, db1))
   \<and> (deleteById (params_id rq) db = (Inr False, db1) \<longrightarrow>
      app_delete_clientes_id deleteById rq db =
        (\<lparr>statusCode = 404,
          jsonBody = JObj [(js ''error'', JStr (js ''Cliente n'' @ [0xE3] @ js ''o encontrado''))]\<rparr>,
         db1))
   \<and> (deleteById (params_id rq) db = (Inl err, db1) \<longrightarrow>
      app_delete_clientes_id deleteById rq db =
        (\<lparr>statusCode = 500,
          jsonBody = JObj [(js ''error'', JStr (js ''Erro ao deletar cliente''))]\<rparr>, db1))
   \<and> (deleteById (params_id rq) db = (Inr True, db1) \<and>
        deleteById (params_id rq) db1 = (Inr False, db2) \<longrightarrow>
      statusCode (fst (app_delete_clientes_id deleteById rq db)) = 200 \<and>
      statusCode (fst (app_delete_clientes_id deleteById rq
                         (snd (app_delete_clientes_id deleteById rq db)))) = 404)"
  by (simp add: app_delete_clientes_id_def)

theorem delete_status_follows_storage_witness:
  "table_deleteById (js ''1'')
       \<lparr>nextId = 2, rows = [(1, JStr (js ''Ana Silva''), JNum 30, JStr (js ''SP''))]\<rparr>
     = (Inr True, \<lparr>nextId = 2, rows = []\<rparr>)
   \<and> table_deleteById (js ''1'') \<lparr>nextId = 2, rows = []\<rparr>
     = (Inr False, \<lparr>nextId = 2, rows = []\<rparr>)
   \<and> app_delete_clientes_id table_deleteById \<lparr>params_id = js ''1'', req_body = JUndefined\<rparr>
       \<lparr>nextId = 2, rows = [(1, JStr (js ''Ana Silva''), JNum 30, JStr (js ''SP''))]\<rparr>
     = (\<lparr>statusCode = 200,
         jsonBody = JObj [(js ''message'', JStr (js ''Cliente deletado com sucesso''))]\<rparr>,
        \<lparr>nextId = 2, rows = []\<rparr>)
   \<and> app_delete_clientes_id table_deleteById \<lparr>params_id = js ''1'', req_body = JUndefined\<rparr>
       \<lparr>nextId = 2, rows = []\<rparr>
     = (\<lparr>statusCode = 404,
         jsonBody = JObj [(js ''error'', JStr (js ''Cliente n'' @ [0xE3] @ js ''o encontrado''))]\<rparr>,
        \<lparr>nextId = 2, rows = []\<rparr>)
   \<and> app_delete_clientes_id (\<lambda>ident t. (Inl (js ''ECONNRESET''), t))
       \<lparr>params_id = js ''1'', req_body = JUndefined\<rparr> \<lparr>nextId = 2, rows = []\<rparr>
     = (\<lparr>statusCode = 500,
         jsonBody = JObj [(js ''error'', JStr (js ''Erro ao deletar cliente''))]\<rparr>,
        \<lparr>nextId = 2, rows = []\<rparr>)"
proof -
  let ?rq = "\<lparr>params_id = js ''1'', req_body = JUndefined\<rparr>"
  let ?t1 = "\<lparr>nextId = 2, rows = [(1, JStr (js ''Ana Silva''), JNum 30, JStr (js ''SP''))]\<rparr>"
  let ?t0 = "\<lparr>nextId = 2, rows = []\<rparr> :: table"
  have removed: "table_deleteById (params_id ?rq) ?t1 = (Inr True, ?t0)"
    by (simp add: table_deleteById_def matches_def natToString.simps js_def)
  have absent: "table_deleteById (params_id ?rq) ?t0 = (Inr False, ?t0)"
    by (simp add: table_deleteById_def)
  have rejects: "(\<lambda>ident t. (Inl (js ''ECONNRESET''), t)) (params_id ?rq) ?t0
                   = (Inl (js ''ECONNRESET''), ?t0)"
    by simp
  show ?thesis
    using removed absent rejects
      delete_status_follows_storage [of table_deleteById ?rq ?t1 ?t0 "()" ?t0]
      delete_status_follows_storage [of table_deleteById ?rq ?t0 ?t0 "()" ?t0]
      delete_status_follows_storage
        [of "\<lambda>ident t. (Inl (js ''ECONNRESET''), t)" ?rq ?t0 ?t0 "js ''ECONNRESET''" ?t0]
    by simp
qed

text \<open>
  C7. Whenever the storage call of an endpoint rejects, the handler answers with status
  500 and an error payload fixed per endpoint: the error value does not occur in the
  response, and the five messages differ from one another.
\<close>

theorem storage_rejection_gives_fixed_500:
  "(selectFull db = (Inl err, db1) \<longrightarrow>
      fst (app_get_root selectFull rq db) =
        \<lparr>statusCode = 500,
         jsonBody = JObj [(js ''error'', JStr (js ''Erro ao buscar clientes''))]\<rparr>)
   \<and> (selectById (params_id rq) db = (Inl err, db1) \<longrightarrow>
      fst (app_get_clientes_id selectById rq db) =
        \<lparr>statusCode = 500,
         jsonBody = JObj [(js ''error'', JStr (js ''Erro ao buscar cliente''))]\<rparr>)
   \<and> (destructure (req_body rq) = Some (n, i, u) \<and> insertCliente n i u db = (Inl err, db1) \<longrightarrow>
      fst (app_post_clientes insertCliente rq db) =
        \<lparr>statusCode = 500,
         jsonBody = JObj [(js ''error'', JStr (js ''Erro ao criar cliente''))]\<rparr>)
   \<and> (destructure (req_body rq) = Some (n, i, u) \<and>
        updateCliente_db n i u (params_id rq) db = (Inl err, db1) \<longrightarrow>
      fst (app_put_clientes_id updateCliente_db rq db) =
        \<lparr>statusCode = 500,
         jsonBody = JObj [(js ''error'', JStr (js ''Erro ao atualizar cliente''))]\<rparr>)
   \<and> (deleteById (params_id rq) db = (Inl err, db1) \<longrightarrow>
      fst (app_delete_clientes_id deleteById rq db) =
        \<lparr>statusCode = 500,
         jsonBody = JObj [(js ''error'', JStr (js ''Erro ao deletar cliente''))]\<rparr>)
   \<and> distinct [js ''Erro ao buscar clientes'', js ''Erro ao buscar cliente'',
                js ''Erro ao criar cliente'', js ''Erro ao atualizar cliente'',
                js ''Erro ao deletar cliente'']"
proof -
  have "distinct [js ''Erro ao buscar clientes'', js ''Erro ao buscar cliente'',
                  js ''Erro ao criar cliente'', js ''Erro ao atualizar cliente'',
                  js ''Erro ao deletar cliente'']"
    by (simp add: js_def)
  then show ?thesis
    by (simp add: app_get_root_def app_get_clientes_id_def app_post_clientes_def
        app_put_clientes_id_def app_delete_clientes_id_def)
qed

theorem storage_rejection_gives_fixed_500_witness:
  "fst (app_get_root (\<lambda>t. (Inl (js ''ER_ACCESS_DENIED''), t))
          \<lparr>params_id = js ''7'', req_body = JObj []\<rparr> \<lparr>nextId = 1, rows = []\<rparr>)
     = \<lparr>statusCode = 500, jsonBody = JObj [(js ''error'', JStr (js ''Erro ao buscar clientes''))]\<rparr>
   \<and> fst (app_get_clientes_id (\<lambda>ident t. (Inl (js ''ER_ACCESS_DENIED''), t))
          \<lparr>params_id = js ''7'', req_body = JObj []\<rparr> \<lparr>nextId = 1, rows = []\<rparr>)
     = \<lparr>statusCode = 500, jsonBody = JObj [(js ''error'', JStr (js ''Erro ao buscar cliente''))]\<rparr>
   \<and> fst (app_post_clientes
          (\<lambda>n i u t. (Inl (js ''ER_ACCESS_DENIED''), t) :: (jsstring + unit) \<times> table)
          \<lparr>params_id = js ''7'', req_body = JObj []\<rparr> \<lparr>nextId = 1, rows = []\<rparr>)
     = \<lparr>statusCode = 500, jsonBody = JObj [(js ''error'', JStr (js ''Erro ao criar cliente''))]\<rparr>
   \<and> fst (app_put_clientes_id
          (\<lambda>n i u ident t. (Inl (js ''ER_ACCESS_DENIED''), t) :: (jsstring + unit) \<times> table)
          \<lparr>params_id = js ''7'', req_body = JObj []\<rparr> \<lparr>nextId = 1, rows = []\<rparr>)
     = \<lparr>statusCode = 500,
        jsonBody = JObj [(js ''error'', JStr (js ''Erro ao atualizar cliente''))]\<rparr>
   \<and> fst (app_delete_clientes_id (\<lambda>ident t. (Inl (js ''ER_ACCESS_DENIED''), t))
          \<lparr>params_id = js ''7'', req_body = JObj []\<rparr> \<lparr>nextId = 1, rows = []\<rparr>)
     = \<lparr>statusCode = 500, jsonBody = JObj [(js ''error'', JStr (js ''Erro ao deletar cliente''))]\<rparr>"
proof -
  let ?rq = "\<lparr>params_id = js ''7'', req_body = JObj []\<rparr>"
  let ?t = "\<lparr>nextId = 1, rows = []\<rparr> :: table"
  let ?e = "js ''ER_ACCESS_DENIED''"
  have body: "destructure (req_body ?rq) = Some (JUndefined, JUndefined, JUndefined)"
    by (simp add: getProp_def)
  show ?thesis
    using body
      storage_rejection_gives_fixed_500
        [of "\<lambda>t. (Inl ?e, t)" ?t ?e ?t ?rq "\<lambda>ident t. (Inl ?e, t)"
            JUndefined JUndefined JUndefined
            "\<lambda>n i u t. (Inl ?e, t) :: (jsstring + unit) \<times> table"
            "\<lambda>n i u ident t. (Inl ?e, t) :: (jsstring + unit) \<times> table"
            "\<lambda>ident t. (Inl ?e, t)"]
    by simp
qed

text \<open>
  C8. A POST whose body is an object, when the insert succeeds, is answered with status
  201 and exactly the body \<^verbatim>\<open>{"message":"Cliente criado com sucesso"}\<close>; the insert
  receives the body's \<open>Nome\<close>, \<open>Idade\<close> and \<open>UF\<close>.
\<close>

theorem post_answers_201_created:
  "req_body rq = JObj kvs \<Longrightarrow>
   insertCliente (getProp kvs (js ''Nome'')) (getProp kvs (js ''Idade''))
     (getProp kvs (js ''UF'')) db = (Inr done, db1) \<Longrightarrow>
   app_post_clientes insertCliente rq db =
     (\<lparr>statusCode = 201,
       jsonBody = JObj [(js ''message'', JStr (js ''Cliente criado com sucesso''))]\<rparr>, db1)"
  by (simp add: app_post_clientes_def)

theorem post_answers_201_created_witness:
  "app_post_clientes table_insertCliente
     \<lparr>params_id = [],
      req_body = JObj [(js ''Nome'', JStr (js ''Ana Silva'')), (js ''Idade'', JNum 30),
                       (js ''UF'', JStr (js ''SP''))]\<rparr>
     \<lparr>nextId = 1, rows = []\<rparr>
   = (\<lparr>statusCode = 201,
       jsonBody = JObj [(js ''message'', JStr (js ''Cliente criado com sucesso''))]\<rparr>,
      \<lparr>nextId = 2, rows = [(1, JStr (js ''Ana Silva''), JNum 30, JStr (js ''SP''))]\<rparr>)"
proof -
  let ?fields = "[(js ''Nome'', JStr (js ''Ana Silva'')), (js ''Idade'', JNum 30),
                  (js ''UF'', JStr (js ''SP''))]"
  let ?rq = "\<lparr>params_id = [], req_body = JObj ?fields\<rparr>"
  let ?t0 = "\<lparr>nextId = 1, rows = []\<rparr> :: table"
  let ?t1 = "\<lparr>nextId = 2, rows = [(1, JStr (js ''Ana Silva''), JNum 30, JStr (js ''SP''))]\<rparr>"
  have props: "getProp ?fields (js ''Nome'') = JStr (js ''Ana Silva'')"
    "getProp ?fields (js ''Idade'') = JNum 30" "getProp ?fields (js ''UF'') = JStr (js ''SP'')"
    by (simp_all add: getProp_def js_def)
  have body: "req_body ?rq = JObj ?fields"
    by simp
  have inserted:
    "table_insertCliente (getProp ?fields (js ''Nome'')) (getProp ?fields (js ''Idade''))
       (getProp ?fields (js ''UF'')) ?t0 = (Inr 1, ?t1)"
    by (simp add: props table_insertCliente_def)
  show ?thesis
    using body inserted
      post_answers_201_created [of ?rq ?fields table_insertCliente ?t0 1 ?t1]
    by simp
qed

text \<open>
  C10. The update handler answers 200 with the success message whenever the storage
  call does not reject, whatever that call yields (a count of zero affected records
  included), and on no input does it answer 404.
\<close>

theorem put_has_no_not_found:
  "(req_body rq = JObj kvs \<and>
    updateCliente_db (getProp kvs (js ''Nome'')) (getProp kvs (js ''Idade''))
      (getProp kvs (js ''UF'')) (params_id rq) db = (Inr done, db1) \<longrightarrow>
    app_put_clientes_id updateCliente_db rq db =
      (\<lparr>statusCode = 200,
        jsonBody = JObj [(js ''message'', JStr (js ''Cliente atualizado com sucesso''))]\<rparr>, db1))
   \<and> statusCode (fst (app_put_clientes_id updateCliente_db rq db)) \<noteq> 404"
  by (auto simp: app_put_clientes_id_def split: option.splits sum.splits prod.splits)

theorem put_has_no_not_found_witness:
  "table_updateCliente (JStr (js ''Ana Silva'')) (JNum 31) (JStr (js ''RJ'')) (js ''999'')
       \<lparr>nextId = 2, rows = [(1, JStr (js ''Ana Silva''), JNum 30, JStr (js ''SP''))]\<rparr>
     = (Inr 0, \<lparr>nextId = 2, rows = [(1, JStr (js ''Ana Silva''), JNum 30, JStr (js ''SP''))]\<rparr>)
   \<and> app_put_clientes_id table_updateCliente
       \<lparr>params_id = js ''999'',
        req_body = JObj [(js ''Nome'', JStr (js ''Ana Silva'')), (js ''Idade'', JNum 31),
                         (js ''UF'', JStr (js ''RJ''))]\<rparr>
       \<lparr>nextId = 2, rows = [(1, JStr (js ''Ana Silva''), JNum 30, JStr (js ''SP''))]\<rparr>
     = (\<lparr>statusCode = 200,
         jsonBody = JObj [(js ''message'', JStr (js ''Cliente atualizado com sucesso''))]\<rparr>,
        \<lparr>nextId = 2, rows = [(1, JStr (js ''Ana Silva''), JNum 30, JStr (js ''SP''))]\<rparr>)"
proof -
  let ?fields = "[(js ''Nome'', JStr (js ''Ana Silva'')), (js ''Idade'', JNum 31),
                  (js ''UF'', JStr (js ''RJ''))]"
  let ?rq = "\<lparr>params_id = js ''999'', req_body = JObj ?fields\<rparr>"
  let ?t = "\<lparr>nextId = 2, rows = [(1, JStr (js ''Ana Silva''), JNum 30, JStr (js ''SP''))]\<rparr>"
  have props: "getProp ?fields (js ''Nome'') = JStr (js ''Ana Silva'')"
    "getProp ?fields (js ''Idade'') = JNum 31" "getProp ?fields (js ''UF'') = JStr (js ''RJ'')"
    by (simp_all add: getProp_def js_def)
  have unmatched:
    "table_updateCliente (JStr (js ''Ana Silva'')) (JNum 31) (JStr (js ''RJ'')) (js ''999'') ?t
       = (Inr 0, ?t)"
    by (simp add: table_updateCliente_def matches_def natToString.simps js_def)
  show ?thesis
    using unmatched props put_has_no_not_found [of ?rq ?fields table_updateCliente ?t 0 ?t]
    by simp
qed

section \<open>Properties of the client application\<close>

subsection \<open>Validation\<close>

lemma trimStart_all_space: "trim s = [] \<Longrightarrow> trimStart s = []"
proof -
  assume "trim s = []"
  then have "dropWhile isWhiteSpace (rev (dropWhile isWhiteSpace s)) = []"
    by (simp add: trim_def trimStart_def)
  then have all: "\<forall>c \<in> set (dropWhile isWhiteSpace s). isWhiteSpace c"
    by (simp add: dropWhile_eq_Nil_conv)
  show "trimStart s = []"
  proof (cases "dropWhile isWhiteSpace s")
    case Nil
    then show ?thesis by (simp add: trimStart_def)
  next
    case (Cons c cs)
    then have "\<not> isWhiteSpace c"
      using hd_dropWhile [of isWhiteSpace s] by simp
    with all Cons show ?thesis by simp
  qed
qed

lemma parseInt_blank: "trim s = [] \<Longrightarrow> parseInt s = None"
  by (simp add: parseInt_def trimStart_all_space)

lemma validateForm_iff:
  "fst (validateForm f) \<longleftrightarrow>
     trim (FormData.Nome f) \<noteq> [] \<and> trim (FormData.Idade f) \<noteq> [] \<and>
     (\<exists>n. parseInt (FormData.Idade f) = Some n \<and> 0 \<le> n \<and> n \<le> 150) \<and>
     trim (FormData.UF f) \<noteq> [] \<and> length (FormData.UF f) = 2"
  by (auto simp: validateForm_def split: option.splits)


lemma validateForm_alerts: "sent (snd (validateForm f)) = []"
  by (auto simp: validateForm_def split: option.splits if_splits)

lemma isRadixDigit_10: "isRadixDigit 10 c \<longleftrightarrow> 0x30 \<le> c \<and> c \<le> 0x39"
  apply (auto simp: isRadixDigit_def digitValue_def isLowerASCII_def isUpperASCII_def word_le_nat_alt word_less_nat_alt split: option.splits if_splits)
  done

lemma takeWhile_radix_10_no_digit:
  assumes "\<forall>c \<in> set cs. \<not> (0x30 \<le> c \<and> c \<le> 0x39)"
  shows "takeWhile (isRadixDigit 10) cs = []"
  using assms by (cases cs) (simp_all add: isRadixDigit_10)

lemma parseInt_no_digit:
  assumes nodigit: "\<forall>c \<in> set s. \<not> (0x30 \<le> c \<and> c \<le> 0x39)"
  shows "parseInt s = None"
proof -
  define S where "S = trimStart s"
  define S1 where "S1 = (if S \<noteq> [] \<and> (hd S = 0x2B \<or> hd S = 0x2D) then tl S else S)"
  have "set S \<subseteq> set s"
    unfolding S_def trimStart_def by (auto dest: set_dropWhileD)
  moreover have "set S1 \<subseteq> set S"
    unfolding S1_def by (auto dest: list.set_sel(2))
  ultimately have S1: "\<forall>c \<in> set S1. \<not> (0x30 \<le> c \<and> c \<le> 0x39)"
    using nodigit by blast
  have nothex: "\<not> (2 \<le> length S1 \<and> (take 2 S1 = [0x30, 0x78] \<or> take 2 S1 = [0x30, 0x58]))"
  proof
    assume "2 \<le> length S1 \<and> (take 2 S1 = [0x30, 0x78] \<or> take 2 S1 = [0x30, 0x58])"
    then have "hd S1 = 0x30" and "S1 \<noteq> []"
      by (cases S1; auto)+
    then have "(0x30 :: codeunit) \<in> set S1"
      using hd_in_set by metis
    with S1 show False by auto
  qed
  show ?thesis
    using nothex takeWhile_radix_10_no_digit [OF S1]
    unfolding parseInt_def Let_def S1_def [symmetric] S_def [symmetric]
    by auto
qed

lemma toUpperCase_length: "length (toUpperCase s) = length s"
  by (simp add: toUpperCase_def)

lemma upper_not_lower: "isLowerASCII c \<Longrightarrow> \<not> isLowerASCII (c - 0x20)"
  unfolding isLowerASCII_def by unat_arith

lemma toUpperCase_no_lower: "list_all (\<lambda>c. \<not> isLowerASCII c) (toUpperCase s)"
  by (induction s) (simp_all add: toUpperCase_def upper_not_lower)

lemma upper_ascii: "isLowerASCII c \<Longrightarrow> c - 0x20 < 0x80"
  unfolding isLowerASCII_def by unat_arith

lemma toUpperCase_ascii: "isASCII s \<Longrightarrow> isASCII (toUpperCase s)"
  by (induction s) (simp_all add: toUpperCase_def isASCII_def upper_ascii)

text \<open>
  C1 (as amended). For a form that \<open>validateForm\<close> accepts and whose state code is ASCII
  text with no white space at either end, the request body of create and update carries
  the upper-cased code: exactly two characters, ASCII, none of them a lowercase letter.
  Nothing makes them letters.
\<close>

theorem submitted_UF_of_trimmed_ascii_field:
  assumes "fst (validateForm f)"
    and "trim (FormData.UF f) = FormData.UF f"
    and "isASCII (FormData.UF f)"
  shows "payload (createCliente_request f) = Some (requestBody f)
       \<and> payload (updateCliente_request c f) = Some (requestBody f)
       \<and> ClienteBody.UF (requestBody f) = toUpperCase (FormData.UF f)
       \<and> length (ClienteBody.UF (requestBody f)) = 2
       \<and> isASCII (ClienteBody.UF (requestBody f))
       \<and> list_all (\<lambda>c. \<not> isLowerASCII c) (ClienteBody.UF (requestBody f))"
proof -
  have "length (FormData.UF f) = 2"
    using assms(1) by (simp add: validateForm_iff)
  then show ?thesis
    using assms(2,3)
    by (simp add: createCliente_request_def updateCliente_request_def requestBody_def
        toUpperCase_length toUpperCase_no_lower toUpperCase_ascii)
qed

theorem submitted_UF_of_trimmed_ascii_field_witness:
  "fst (validateForm \<lparr>FormData.Nome = js ''Ana Silva'', Idade = js ''30'', UF = js ''sp''\<rparr>)
   \<and> trim (js ''sp'') = js ''sp'' \<and> isASCII (js ''sp'')
   \<and> ClienteBody.UF (requestBody \<lparr>FormData.Nome = js ''Ana Silva'', Idade = js ''30'', UF = js ''sp''\<rparr>)
       = js ''SP''"
proof -
  let ?f = "\<lparr>FormData.Nome = js ''Ana Silva'', Idade = js ''30'', UF = js ''sp''\<rparr>"
  have valid: "fst (validateForm ?f)" by code_simp
  have trimmed: "trim (FormData.UF ?f) = FormData.UF ?f" by code_simp
  have ascii: "isASCII (FormData.UF ?f)" by code_simp
  have upper: "toUpperCase (js ''sp'') = js ''SP''" by code_simp
  show ?thesis
    using valid trimmed ascii upper
      submitted_UF_of_trimmed_ascii_field [OF valid trimmed ascii]
    by simp
qed

text \<open>
  C1 as stated fails twice. The form with state code \<^verbatim>\<open>"A "\<close> is accepted, its length being
  taken before trimming, and submits the single character \<^verbatim>\<open>"A"\<close>; the form with state
  code \<^verbatim>\<open>"12"\<close> is accepted and submits \<^verbatim>\<open>"12"\<close>, which has no letter.
\<close>

theorem submitted_UF_counterexample:
  "fst (validateForm \<lparr>FormData.Nome = js ''Ana Silva'', Idade = js ''30'', UF = js ''A ''\<rparr>)
   \<and> length (ClienteBody.UF
        (requestBody \<lparr>FormData.Nome = js ''Ana Silva'', Idade = js ''30'', UF = js ''A ''\<rparr>)) = 1
   \<and> fst (validateForm \<lparr>FormData.Nome = js ''Ana Silva'', Idade = js ''30'', UF = js ''12''\<rparr>)
   \<and> ClienteBody.UF
        (requestBody \<lparr>FormData.Nome = js ''Ana Silva'', Idade = js ''30'', UF = js ''12''\<rparr>)
       = js ''12''
   \<and> \<not> list_all isUpperASCII (js ''12'')"
  by code_simp

text \<open>
  C2 (as amended). With a valid name and state code, \<open>validateForm\<close> accepts a form
  exactly when \<open>parseInt\<close> of the age field is an integer from 0 to 150. It accepts
  \<^verbatim>\<open>"0"\<close> and \<^verbatim>\<open>"150"\<close>, rejects \<^verbatim>\<open>"-1"\<close> and \<^verbatim>\<open>"151"\<close>, and rejects every text
  without a decimal digit.
\<close>

theorem age_accepted_iff_parseInt_in_range:
  assumes "trim (FormData.Nome f) \<noteq> []"
    and "trim (FormData.UF f) \<noteq> []"
    and "length (FormData.UF f) = 2"
  shows "(fst (validateForm f) \<longleftrightarrow>
            (\<exists>n. parseInt (FormData.Idade f) = Some n \<and> 0 \<le> n \<and> n \<le> 150))
       \<and> fst (validateForm (f\<lparr>FormData.Idade := js ''0''\<rparr>))
       \<and> fst (validateForm (f\<lparr>FormData.Idade := js ''150''\<rparr>))
       \<and> \<not> fst (validateForm (f\<lparr>FormData.Idade := js ''-1''\<rparr>))
       \<and> \<not> fst (validateForm (f\<lparr>FormData.Idade := js ''151''\<rparr>))
       \<and> ((\<forall>c \<in> set (FormData.Idade f). \<not> (0x30 \<le> c \<and> c \<le> 0x39)) \<longrightarrow>
            \<not> fst (validateForm f))"
proof -
  have general: "fst (validateForm g) \<longleftrightarrow>
      (\<exists>n. parseInt (FormData.Idade g) = Some n \<and> 0 \<le> n \<and> n \<le> 150)"
    if "FormData.Nome g = FormData.Nome f" and "FormData.UF g = FormData.UF f" for g
  proof (cases "trim (FormData.Idade g) = []")
    case True
    then show ?thesis
      by (simp add: validateForm_iff parseInt_blank)
  next
    case False
    then show ?thesis
      using assms that by (simp add: validateForm_iff)
  qed
  have p0: "parseInt (js ''0'') = Some 0" by code_simp
  have p150: "parseInt (js ''150'') = Some 150" by code_simp
  have pm1: "parseInt (js ''-1'') = Some (- 1)" by code_simp
  have p151: "parseInt (js ''151'') = Some 151" by code_simp
  show ?thesis
    using general [of f] parseInt_no_digit [of "FormData.Idade f"]
    by (simp add: general p0 p150 pm1 p151)
qed

theorem age_accepted_iff_parseInt_in_range_witness:
  "trim (js ''Ana Silva'') \<noteq> [] \<and> trim (js ''SP'') \<noteq> [] \<and> length (js ''SP'') = 2
   \<and> parseInt (js ''42'') = Some 42
   \<and> fst (validateForm \<lparr>FormData.Nome = js ''Ana Silva'', Idade = js ''42'', UF = js ''SP''\<rparr>)
   \<and> list_all (\<lambda>c. \<not> (0x30 \<le> c \<and> c \<le> 0x39)) (js ''abc'')
   \<and> \<not> fst (validateForm \<lparr>FormData.Nome = js ''Ana Silva'', Idade = js ''abc'', UF = js ''SP''\<rparr>)"
proof -
  let ?f = "\<lparr>FormData.Nome = js ''Ana Silva'', Idade = js ''42'', UF = js ''SP''\<rparr>"
  let ?g = "\<lparr>FormData.Nome = js ''Ana Silva'', Idade = js ''abc'', UF = js ''SP''\<rparr>"
  have nome: "trim (js ''Ana Silva'') \<noteq> []" by code_simp
  have uf: "trim (js ''SP'') \<noteq> []" "length (js ''SP'') = 2" by code_simp+
  have idade: "parseInt (js ''42'') = Some 42" by code_simp
  have letters: "\<forall>c \<in> set (js ''abc''). \<not> (0x30 \<le> c \<and> c \<le> 0x39)"
    by (simp add: js_def)
  have f: "trim (FormData.Nome ?f) \<noteq> []" "trim (FormData.UF ?f) \<noteq> []"
    "length (FormData.UF ?f) = 2" "parseInt (FormData.Idade ?f) = Some 42"
    using nome uf idade by simp_all
  have g: "trim (FormData.Nome ?g) \<noteq> []" "trim (FormData.UF ?g) \<noteq> []"
    "length (FormData.UF ?g) = 2" "\<forall>c \<in> set (FormData.Idade ?g). \<not> (0x30 \<le> c \<and> c \<le> 0x39)"
    using nome uf letters by simp_all
  have accepted: "fst (validateForm ?f)"
    using age_accepted_iff_parseInt_in_range [OF f(1-3), THEN conjunct1] f(4) by simp
  have rejected: "\<not> fst (validateForm ?g)"
    using age_accepted_iff_parseInt_in_range [OF g(1-3)] g(4) by blast
  show ?thesis
    using nome uf idade letters accepted rejected by (simp add: list_all_iff)
qed

text \<open>
  C2 as stated fails: \<^verbatim>\<open>"12a"\<close> is not numeric text, yet the form is accepted and the
  age submitted is 12, since \<open>parseInt\<close> stops at the first character that is not a
  digit.
\<close>

theorem age_prefix_counterexample:
  "fst (validateForm \<lparr>FormData.Nome = js ''Ana Silva'', Idade = js ''12a'', UF = js ''SP''\<rparr>)
   \<and> ClienteBody.Idade
        (requestBody \<lparr>FormData.Nome = js ''Ana Silva'', Idade = js ''12a'', UF = js ''SP''\<rparr>)
       = Some 12
   \<and> \<not> spec_numeric_text (js ''12a'')"
  by code_simp

subsection \<open>Submission\<close>

lemma sent_append: "sent (xs @ ys) = sent xs @ sent ys"
  by (induction xs rule: sent.induct) simp_all



lemma fetchClientes_frame:
  "formData (fst (fetchClientes net st)) = formData st"
  "editingCliente (fst (fetchClientes net st)) = editingCliente st"
  "modalVisible (fst (fetchClientes net st)) = modalVisible st"
  "deletingCliente (fst (fetchClientes net st)) = deletingCliente st"
  "deleteModalVisible (fst (fetchClientes net st)) = deleteModalVisible st"
  by (simp_all add: fetchClientes_def split: sum.splits)

text \<open>
  C4. When \<open>validateForm\<close> rejects the form, neither \<open>createCliente\<close> nor
  \<open>updateCliente\<close> sends a request: the only effect is the dialog of the validation,
  and the state is left as it was.
\<close>

theorem no_request_when_validation_fails:
  assumes "\<not> fst (validateForm (formData st))"
  shows "sent (snd (createCliente net st)) = []
       \<and> sent (snd (updateCliente net st)) = []
       \<and> snd (createCliente net st) = snd (validateForm (formData st))
       \<and> fst (createCliente net st) = st
       \<and> fst (updateCliente net st) = st"
proof -
  obtain alerts where failed: "validateForm (formData st) = (False, alerts)"
    using assms by (cases "validateForm (formData st)") simp
  have "sent alerts = []"
    using validateForm_alerts [of "formData st"] failed by simp
  then show ?thesis
    using failed by (simp add: createCliente_def updateCliente_def split: option.splits)
qed

theorem no_request_when_validation_fails_witness:
  "\<not> fst (validateForm \<lparr>FormData.Nome = js ''Ana Silva'', Idade = js ''151'', UF = js ''SP''\<rparr>)
   \<and> sent (snd (createCliente (server_up 20)
        (editing_ana \<lparr>FormData.Nome = js ''Ana Silva'', Idade = js ''151'', UF = js ''SP''\<rparr>))) = []
   \<and> sent (snd (updateCliente (server_up 20)
        (editing_ana \<lparr>FormData.Nome = js ''Ana Silva'', Idade = js ''151'', UF = js ''SP''\<rparr>))) = []
   \<and> snd (createCliente (server_up 20)
        (editing_ana \<lparr>FormData.Nome = js ''Ana Silva'', Idade = js ''151'', UF = js ''SP''\<rparr>))
       = [Alert (js ''Erro'') (js ''Digite uma idade v'' @ [0xE1] @ js ''lida (0-150)'')]"
proof -
  let ?f = "\<lparr>FormData.Nome = js ''Ana Silva'', Idade = js ''151'', UF = js ''SP''\<rparr>"
  have rejected: "validateForm ?f =
      (False, [Alert (js ''Erro'') (js ''Digite uma idade v'' @ [0xE1] @ js ''lida (0-150)'')])"
    by code_simp
  then have invalid: "\<not> fst (validateForm (formData (editing_ana ?f)))"
    by (simp add: editing_ana_def)
  show ?thesis
    using no_request_when_validation_fails [OF invalid, of "server_up 20"] rejected
    by (simp add: editing_ana_def)
qed














subsection \<open>Deletion\<close>

lemma closeDeleteModal_closed:
  "\<not> deleteModalVisible (closeDeleteModal st)" "deletingCliente (closeDeleteModal st) = None"
  by (simp_all add: closeDeleteModal_def)

lemma deleteCliente_idle: "deletingCliente st = None \<Longrightarrow> deleteCliente net st = (st, [])"
  by (simp add: deleteCliente_def)

lemma deleteCliente_closes:
  assumes "deletingCliente st = Some c"
  shows "\<not> deleteModalVisible (fst (deleteCliente net st))"
    and "deletingCliente (fst (deleteCliente net st)) = None"
    and "sent (snd (deleteCliente net st)) \<noteq> []"
    and "hd (sent (snd (deleteCliente net st))) = deleteCliente_request c"
  using assms
  by (simp_all add: deleteCliente_def Let_def case_prod_beta fetchClientes_frame
      closeDeleteModal_closed split: sum.splits)

text \<open>
  C6. With a client selected for deletion, \<open>deleteCliente\<close> sends the request, and
  every run that sends a request ends with the confirmation modal hidden and the
  reference to the client being deleted reset to null, whatever the network did;
  \<open>closeDeleteModal\<close> does both.
\<close>

theorem delete_attempt_always_closes_modal:
  "(deletingCliente st = Some c \<longrightarrow>
      sent (snd (deleteCliente net st)) \<noteq> [] \<and>
      hd (sent (snd (deleteCliente net st))) = deleteCliente_request c)
   \<and> (sent (snd (deleteCliente net st)) \<noteq> [] \<longrightarrow>
      \<not> deleteModalVisible (fst (deleteCliente net st)) \<and>
      deletingCliente (fst (deleteCliente net st)) = None)
   \<and> \<not> deleteModalVisible (closeDeleteModal st)
   \<and> deletingCliente (closeDeleteModal st) = None"
proof (cases "deletingCliente st")
  case None
  then show ?thesis
    by (simp add: deleteCliente_idle closeDeleteModal_closed)
next
  case (Some d)
  then show ?thesis
    using deleteCliente_closes [OF Some, of net]
    by (simp add: closeDeleteModal_closed)
qed

theorem delete_attempt_always_closes_modal_witness:
  "deletingCliente (confirmDeleteCliente ana listing) = Some ana
   \<and> deleteModalVisible (confirmDeleteCliente ana listing)
   \<and> sent (snd (deleteCliente (\<lambda>r. NoAnswer) (confirmDeleteCliente ana listing)))
       = [deleteCliente_request ana]
   \<and> \<not> deleteModalVisible (fst (deleteCliente (\<lambda>r. NoAnswer) (confirmDeleteCliente ana listing)))
   \<and> deletingCliente (fst (deleteCliente (\<lambda>r. NoAnswer) (confirmDeleteCliente ana listing))) = None
   \<and> \<not> deleteModalVisible (fst (deleteCliente server_failing (confirmDeleteCliente ana listing)))
   \<and> deletingCliente (fst (deleteCliente server_failing (confirmDeleteCliente ana listing))) = None"
proof -
  let ?st = "confirmDeleteCliente ana listing"
  have chosen: "deletingCliente ?st = Some ana" and shown: "deleteModalVisible ?st"
    by (simp_all add: confirmDeleteCliente_def)
  have timed_out: "snd (deleteCliente (\<lambda>r. NoAnswer) ?st) =
      [Fetch (deleteCliente_request ana),
       Alert (js ''Timeout'') (js ''A opera'' @ [0xE7, 0xE3] @ js ''o demorou muito para responder.'')]"
    using chosen by (simp add: deleteCliente_def fetch_def deleteCliente_request_def)
  have closed: "\<not> deleteModalVisible (fst (deleteCliente (\<lambda>r. NoAnswer) ?st))"
    "deletingCliente (fst (deleteCliente (\<lambda>r. NoAnswer) ?st)) = None"
    using delete_attempt_always_closes_modal [of ?st ana "\<lambda>r. NoAnswer"] chosen by blast+
  have closed': "\<not> deleteModalVisible (fst (deleteCliente server_failing ?st))"
    "deletingCliente (fst (deleteCliente server_failing ?st)) = None"
    using delete_attempt_always_closes_modal [of ?st ana server_failing] chosen by blast+
  show ?thesis
    using chosen shown closed closed' timed_out by simp
qed

subsection \<open>Timeouts\<close>

lemma fetch_silent:
  "silent_until (delay (signal rq)) (net rq) \<Longrightarrow> fetch net rq = Inl (abortReason (signal rq))"
  by (auto simp: fetch_def silent_until_def split: net_behaviour.splits)

lemma fetch_fails:
  "net rq = Fails d e \<Longrightarrow> d < delay (signal rq) \<Longrightarrow> fetch net rq = Inl e"
  by (simp add: fetch_def)

lemma fetchClientes_timeout:
  assumes "silent_until 10000 (net fetchClientes_request)"
  shows "snd (fetchClientes net st) =
           [Fetch fetchClientes_request,
            Alert (js ''Erro'')
              (js ''Timeout: Verifique se a API est'' @ [0xE1] @ js '' rodando e o IP est''
               @ [0xE1] @ js '' correto.'')]"
proof -
  have "fetch net fetchClientes_request = Inl (abortReason (signal fetchClientes_request))"
    using assms by (intro fetch_silent) (simp add: fetchClientes_request_def)
  then show ?thesis
    by (simp add: fetchClientes_def fetchClientes_try_def fetchClientes_request_def)
qed

lemma fetchClientes_network_failure:
  assumes "net fetchClientes_request = Fails d (ErrorObj name message)"
    and "d < 10000" and "name \<noteq> js ''TimeoutError''"
  shows "\<exists>title text.
           snd (fetchClientes net st) = [Fetch fetchClientes_request, Alert title text]
           \<and> Alert title text \<noteq>
               Alert (js ''Erro'')
                 (js ''Timeout: Verifique se a API est'' @ [0xE1] @ js '' rodando e o IP est''
                  @ [0xE1] @ js '' correto.'')"
proof -
  have "fetch net fetchClientes_request = Inl (ErrorObj name message)"
    using assms(1,2) by (intro fetch_fails) (simp_all add: fetchClientes_request_def)
  then have run: "snd (fetchClientes net st) =
      Fetch fetchClientes_request # fetchClientes_catch (ErrorObj name message)"
    by (simp add: fetchClientes_def fetchClientes_try_def)
  show ?thesis
  proof (cases "includes_str message (js ''Network request failed'')")
    case True
    then show ?thesis
      using run assms(3) by (simp add: js_def)
  next
    case False
    then show ?thesis
      using run assms(3) by (simp add: js_def)
  qed
qed

lemma deleteCliente_timeout:
  assumes "deletingCliente st = Some c"
    and "silent_until 8000 (net (deleteCliente_request c))"
  shows "snd (deleteCliente net st) =
           [Fetch (deleteCliente_request c),
            Alert (js ''Timeout'')
              (js ''A opera'' @ [0xE7, 0xE3] @ js ''o demorou muito para responder.'')]"
proof -
  have "fetch net (deleteCliente_request c)
          = Inl (abortReason (signal (deleteCliente_request c)))"
    using assms(2) by (intro fetch_silent) (simp add: deleteCliente_request_def)
  then show ?thesis
    using assms(1)
    by (simp add: deleteCliente_def deleteCliente_request_def)
qed

lemma deleteCliente_network_failure:
  assumes "deletingCliente st = Some c"
    and "net (deleteCliente_request c) = Fails d (ErrorObj name message)"
    and "d < 8000" and "name \<noteq> js ''AbortError''"
  shows "snd (deleteCliente net st) = [Fetch (deleteCliente_request c), connectionAlert]"
proof -
  have "fetch net (deleteCliente_request c) = Inl (ErrorObj name message)"
    using assms(2,3) by (intro fetch_fails) (simp_all add: deleteCliente_request_def)
  then show ?thesis
    using assms(1,4) by (simp add: deleteCliente_def)
qed

text \<open>
  C9. The list request carries a timeout of 10000 ms and the delete request an abort
  timer of its own of 8000 ms. In both flows a request that gets no answer in time
  opens the timeout dialog, and a request that fails earlier with another error opens
  a dialog that differs from it.
\<close>

theorem timeouts_and_their_messages:
  "signal fetchClientes_request = AbortSignal_timeout 10000
   \<and> signal (deleteCliente_request c) = AbortController_after 8000
   \<and> (silent_until 10000 (net fetchClientes_request) \<longrightarrow>
        snd (fetchClientes net st) =
          [Fetch fetchClientes_request,
           Alert (js ''Erro'')
             (js ''Timeout: Verifique se a API est'' @ [0xE1] @ js '' rodando e o IP est''
              @ [0xE1] @ js '' correto.'')])
   \<and> (net fetchClientes_request = Fails d (ErrorObj name message) \<and> d < 10000 \<and>
       name \<noteq> js ''TimeoutError'' \<longrightarrow>
        (\<exists>title text.
           snd (fetchClientes net st) = [Fetch fetchClientes_request, Alert title text]
           \<and> Alert title text \<noteq>
               Alert (js ''Erro'')
                 (js ''Timeout: Verifique se a API est'' @ [0xE1] @ js '' rodando e o IP est''
                  @ [0xE1] @ js '' correto.'')))
   \<and> (deletingCliente st = Some c \<and> silent_until 8000 (net (deleteCliente_request c)) \<longrightarrow>
        snd (deleteCliente net st) =
          [Fetch (deleteCliente_request c),
           Alert (js ''Timeout'')
             (js ''A opera'' @ [0xE7, 0xE3] @ js ''o demorou muito para responder.'')])
   \<and> (deletingCliente st = Some c \<and>
       net (deleteCliente_request c) = Fails d (ErrorObj name message) \<and> d < 8000 \<and>
       name \<noteq> js ''AbortError'' \<longrightarrow>
        snd (deleteCliente net st) = [Fetch (deleteCliente_request c), connectionAlert])
   \<and> connectionAlert \<noteq>
        Alert (js ''Timeout'')
          (js ''A opera'' @ [0xE7, 0xE3] @ js ''o demorou muito para responder.'')"
proof -
  have distinct_alerts: "connectionAlert \<noteq>
      Alert (js ''Timeout'') (js ''A opera'' @ [0xE7, 0xE3] @ js ''o demorou muito para responder.'')"
    by (simp add: connectionAlert_def js_def)
  show ?thesis
    using fetchClientes_timeout [of net st] fetchClientes_network_failure [of net d name message st]
      deleteCliente_timeout [of st c net]
      deleteCliente_network_failure [of st c net d name message]
      distinct_alerts
    by (simp add: fetchClientes_request_def deleteCliente_request_def)
qed

theorem timeouts_and_their_messages_witness:
  "silent_until 8000 (server_up 9000 (deleteCliente_request ana))
   \<and> \<not> silent_until 10000 (server_up 9000 fetchClientes_request)
   \<and> snd (deleteCliente (server_up 9000) (confirmDeleteCliente ana listing)) =
        [Fetch (deleteCliente_request ana),
         Alert (js ''Timeout'')
           (js ''A opera'' @ [0xE7, 0xE3] @ js ''o demorou muito para responder.'')]
   \<and> snd (deleteCliente server_down (confirmDeleteCliente ana listing)) =
        [Fetch (deleteCliente_request ana), connectionAlert]
   \<and> snd (fetchClientes (\<lambda>r. NoAnswer) listing) =
        [Fetch fetchClientes_request,
         Alert (js ''Erro'')
           (js ''Timeout: Verifique se a API est'' @ [0xE1] @ js '' rodando e o IP est''
            @ [0xE1] @ js '' correto.'')]
   \<and> snd (fetchClientes server_down listing) \<noteq> snd (fetchClientes (\<lambda>r. NoAnswer) listing)"
proof -
  let ?st = "confirmDeleteCliente ana listing"
  let ?e = "ErrorObj (js ''TypeError'') (js ''Network request failed'')"
  have chosen: "deletingCliente ?st = Some ana"
    by (simp add: confirmDeleteCliente_def)
  have late: "silent_until 8000 (server_up 9000 (deleteCliente_request ana))"
    and in_time: "\<not> silent_until 10000 (server_up 9000 fetchClientes_request)"
    and never: "silent_until 10000 ((\<lambda>r. NoAnswer) fetchClientes_request)"
    by (simp_all add: silent_until_def server_up_def)
  have down: "server_down (deleteCliente_request ana) = Fails 5 ?e"
    "server_down fetchClientes_request = Fails 5 ?e"
    by (simp_all add: server_down_def)
  have names: "js ''TypeError'' \<noteq> js ''AbortError''" "js ''TypeError'' \<noteq> js ''TimeoutError''"
    by (simp_all add: js_def)
  have a: "snd (deleteCliente (server_up 9000) ?st) =
        [Fetch (deleteCliente_request ana),
         Alert (js ''Timeout'')
           (js ''A opera'' @ [0xE7, 0xE3] @ js ''o demorou muito para responder.'')]"
    using timeouts_and_their_messages [where net = "server_up 9000" and st = ?st and c = ana]
      chosen late by blast
  have b: "snd (deleteCliente server_down ?st) =
        [Fetch (deleteCliente_request ana), connectionAlert]"
    using timeouts_and_their_messages [where net = server_down and st = ?st and c = ana
        and d = 5 and name = "js ''TypeError''" and message = "js ''Network request failed''"]
      chosen down(1) names(1) by simp
  have c: "snd (fetchClientes (\<lambda>r. NoAnswer) listing) =
        [Fetch fetchClientes_request,
         Alert (js ''Erro'')
           (js ''Timeout: Verifique se a API est'' @ [0xE1] @ js '' rodando e o IP est''
            @ [0xE1] @ js '' correto.'')]"
    using timeouts_and_their_messages [where net = "\<lambda>r. NoAnswer" and st = listing]
      never by blast
  have d: "snd (fetchClientes server_down listing) \<noteq> snd (fetchClientes (\<lambda>r. NoAnswer) listing)"
    using timeouts_and_their_messages [where net = server_down and st = listing
        and d = 5 and name = "js ''TypeError''" and message = "js ''Network request failed''"]
      down(2) names(2) c by auto
  show ?thesis
    using late in_time a b c d by blast
qed

end
